theory Spec2Isabelle
  imports Main
begin

section \<open>Display components of FastUI: \<open>fastui/components/display.py\<close>\<close>

text \<open>
  The module declares three pydantic models, \<open>DisplayLookup\<close>, \<open>Display\<close> and
  \<open>Details\<close>, one validator that runs after the fields of a \<open>Details\<close> have been
  validated (\<open>_fill_fields\<close>) and one hook that edits the JSON schema of \<open>Details\<close>.
  Objects are records, the union of the two descriptor classes is a datatype, a
  validation failure is the value \<open>Inl ValidationError\<close>, and a Python dictionary is
  an association list in insertion order.
\<close>

subsection \<open>Errors\<close>

datatype error = ValidationError | KeyError | LookupError | AttributeError

subsection \<open>Dictionaries in insertion order\<close>

text \<open>
  \<open>d[k] = v\<close>: a key that is present keeps its position and takes the new value, a new
  key goes to the end.
\<close>

fun dict_setitem :: "'k \<Rightarrow> 'v \<Rightarrow> ('k \<times> 'v) list \<Rightarrow> ('k \<times> 'v) list" where
  "dict_setitem k v [] = [(k, v)]"
| "dict_setitem k v ((k', v') # d) =
     (if k' = k then (k', v) # d else (k', v') # dict_setitem k v d)"

text \<open>\<open>{**a, **b}\<close>: a fresh dictionary that receives the items of \<open>a\<close>, then those of \<open>b\<close>.\<close>

definition dict_unpack :: "('k \<times> 'v) list \<Rightarrow> ('k \<times> 'v) list \<Rightarrow> ('k \<times> 'v) list" where
  "dict_unpack a b = foldl (\<lambda>d (k, v). dict_setitem k v d) [] (a @ b)"

text \<open>\<open>d.get(k)\<close>: the value stored under \<open>k\<close>, or \<open>None\<close>.\<close>

definition dict_get :: "('k \<times> 'v) list \<Rightarrow> 'k \<Rightarrow> 'v option" where
  "dict_get d k = map_of d k"

text \<open>The keys of a Python dictionary are pairwise different.\<close>

definition is_dict :: "('k \<times> 'v) list \<Rightarrow> bool" where
  "is_dict d = distinct (map fst d)"

subsection \<open>The data model and its declared attributes\<close>

text \<open>
  \<open>_fill_fields\<close> reads two class-level dictionaries of the data model,
  \<open>model_fields\<close> (stored attributes) and \<open>model_computed_fields\<close> (computed
  attributes), and of each entry only its \<open>title\<close>. Both kinds of entry are
  modelled by one record that holds this title.
\<close>

record FieldInfo =
  field_title :: "string option"

record DataModel =
  model_fields :: "(string \<times> FieldInfo) list"
  model_computed_fields :: "(string \<times> FieldInfo) list"

text \<open>
  What holds of every pydantic model class: both are dictionaries, and no computed
  attribute has the name of a stored one (pydantic raises when such a class is
  declared).
\<close>

definition wf_DataModel :: "DataModel \<Rightarrow> bool" where
  "wf_DataModel dm =
     (is_dict (model_fields dm) \<and> is_dict (model_computed_fields dm) \<and>
      list_all (\<lambda>k. k \<notin> set (map fst (model_fields dm))) (map fst (model_computed_fields dm)))"

subsection \<open>Descriptors\<close>

datatype DisplayMode =
  auto | plain | datetime | date | duration | as_title | markdown | json | inline_code | currency

text \<open>
  \<open>'e\<close> is the type of events (\<open>events.AnyEvent\<close>) and \<open>'j\<close> the type of JSON data
  (\<open>_types.JsonData\<close>); neither is inspected by this module.
\<close>

record 'e DisplayBase =
  mode :: "DisplayMode option"
  title :: "string option"
  on_click :: "'e option"

record 'e DisplayLookup = "'e DisplayBase" +
  field :: string
  table_width_percent :: "int option"

record ('e, 'j) Display = "'e DisplayBase" +
  display_value :: 'j
  display_type :: string

text \<open>An element of \<open>Details.fields\<close>: \<open>Union[DisplayLookup, Display]\<close>.\<close>

datatype ('e, 'j) descriptor =
  Is_DisplayLookup "'e DisplayLookup"
| Is_Display "('e, 'j) Display"

fun descriptor_title :: "('e, 'j) descriptor \<Rightarrow> string option" where
  "descriptor_title (Is_DisplayLookup l) = title l"
| "descriptor_title (Is_Display x) = title x"

subsection \<open>Construction of the descriptors\<close>

text \<open>\<open>annotated_types.Interval(ge=.., le=..)\<close> on an integer.\<close>

definition Interval :: "int \<Rightarrow> int \<Rightarrow> int \<Rightarrow> bool" where
  "Interval ge le n = (ge \<le> n \<and> n \<le> le)"

text \<open>
  \<open>DisplayLookup(mode=.., title=.., on_click=.., field=.., table_width_percent=..)\<close>.
  The only constraint the class declares is the interval on \<open>table_width_percent\<close>;
  \<open>field\<close> is declared \<open>str\<close> and nothing more.
\<close>

definition DisplayLookup_init ::
  "DisplayMode option \<Rightarrow> string option \<Rightarrow> 'e option \<Rightarrow> string \<Rightarrow> int option
     \<Rightarrow> error + 'e DisplayLookup" where
  "DisplayLookup_init m t oc f w =
     (case w of
        None \<Rightarrow> Inr \<lparr>mode = m, title = t, on_click = oc, field = f, table_width_percent = None\<rparr>
      | Some n \<Rightarrow>
          if Interval 0 100 n
          then Inr \<lparr>mode = m, title = t, on_click = oc, field = f, table_width_percent = Some n\<rparr>
          else Inl ValidationError)"

text \<open>
  \<open>Display(mode=.., title=.., on_click=.., value=.., type=..)\<close>; \<open>type\<close> is
  \<open>Literal['Display']\<close> with that default.
\<close>

definition Display_init ::
  "DisplayMode option \<Rightarrow> string option \<Rightarrow> 'e option \<Rightarrow> 'j \<Rightarrow> string option
     \<Rightarrow> error + ('e, 'j) Display" where
  "Display_init m t oc v ty =
     (case ty of
        None \<Rightarrow> Inr \<lparr>mode = m, title = t, on_click = oc, display_value = v, display_type = ''Display''\<rparr>
      | Some s \<Rightarrow>
          if s = ''Display''
          then Inr \<lparr>mode = m, title = t, on_click = oc, display_value = v, display_type = s\<rparr>
          else Inl ValidationError)"

subsection \<open>\<open>Details\<close> and its validator \<open>_fill_fields\<close>\<close>

text \<open>
  \<open>'c\<close> is the type of class names (\<open>_class_name.ClassNameField\<close>). The attributes
  \<open>fields\<close> and \<open>type\<close> are \<open>details_fields\<close> and \<open>details_type\<close> here.
\<close>

record ('e, 'j, 'c) Details =
  data :: DataModel
  details_fields :: "('e, 'j) descriptor list option"
  class_name :: "'c option"
  details_type :: string

text \<open>Python's truth value of an optional string: \<open>None\<close> and \<open>''\<close> are false.\<close>

fun truthy :: "string option \<Rightarrow> bool" where
  "truthy None = False"
| "truthy (Some s) = (s \<noteq> [])"

text \<open>
  The list comprehension of the branch \<open>self.fields is None\<close>:
  \<open>[DisplayLookup(field=name, title=field.title) for name, field in fields.items()]\<close>.
  A constructor that raised would end the comprehension.
\<close>

fun lookups_of_items :: "(string \<times> FieldInfo) list \<Rightarrow> error + ('e, 'j) descriptor list" where
  "lookups_of_items [] = Inr []"
| "lookups_of_items ((name, fi) # items) =
     (case DisplayLookup_init None (field_title fi) None name None of
        Inl e \<Rightarrow> Inl e
      | Inr l \<Rightarrow>
          (case lookups_of_items items of
             Inl e \<Rightarrow> Inl e
           | Inr ls \<Rightarrow> Inr (Is_DisplayLookup l # ls)))"

text \<open>
  The body of the \<open>for\<close> loop of the other branch, for one descriptor whose title is
  \<open>None\<close>. The lookup is made in \<open>self.data.model_fields\<close>.
\<close>

fun fill_title :: "DataModel \<Rightarrow> ('e, 'j) descriptor \<Rightarrow> ('e, 'j) descriptor" where
  "fill_title dm (Is_DisplayLookup l) =
     (case dict_get (model_fields dm) (field l) of
        None \<Rightarrow> Is_DisplayLookup l
      | Some pydantic_field \<Rightarrow>
          if truthy (field_title pydantic_field)
          then Is_DisplayLookup (l\<lparr>title := field_title pydantic_field\<rparr>)
          else Is_DisplayLookup l)"
| "fill_title dm (Is_Display x) = Is_Display (x\<lparr>title := title x\<rparr>)"

text \<open>
  The loop \<open>for field in (c for c in self.fields if c.title is None)\<close>. The source
  assigns to the objects of the list; the list keeps its cells, so the state of the
  list after the loop is the list of the updated objects. An object that occurs
  twice is updated at its first occurrence and, its title being set then, skipped at
  the second, which gives the same final list.
\<close>

fun fill_loop :: "DataModel \<Rightarrow> ('e, 'j) descriptor list \<Rightarrow> ('e, 'j) descriptor list" where
  "fill_loop dm [] = []"
| "fill_loop dm (c # cs) =
     (if descriptor_title c = None then fill_title dm c else c) # fill_loop dm cs"

definition fill_fields :: "('e, 'j, 'c) Details \<Rightarrow> error + ('e, 'j, 'c) Details" where
  "fill_fields self =
     (let flds = dict_unpack (model_fields (data self)) (model_computed_fields (data self))
      in case details_fields self of
           None \<Rightarrow>
             (case lookups_of_items flds of
                Inl e \<Rightarrow> Inl e
              | Inr ls \<Rightarrow> Inr (self\<lparr>details_fields := Some ls\<rparr>))
         | Some cs \<Rightarrow> Inr (self\<lparr>details_fields := Some (fill_loop (data self) cs)\<rparr>))"

text \<open>
  Validation of one element of \<open>fields\<close> against \<open>Union[DisplayLookup, Display]\<close>:
  the constraints of its class are checked on its attributes.
\<close>

fun validate_descriptor :: "('e, 'j) descriptor \<Rightarrow> error + ('e, 'j) descriptor" where
  "validate_descriptor (Is_DisplayLookup l) =
     (case DisplayLookup_init (mode l) (title l) (on_click l) (field l) (table_width_percent l) of
        Inl e \<Rightarrow> Inl e
      | Inr l' \<Rightarrow> Inr (Is_DisplayLookup l'))"
| "validate_descriptor (Is_Display x) =
     (case Display_init (mode x) (title x) (on_click x) (display_value x) (Some (display_type x)) of
        Inl e \<Rightarrow> Inl e
      | Inr x' \<Rightarrow> Inr (Is_Display x'))"

fun validate_list :: "('e, 'j) descriptor list \<Rightarrow> error + ('e, 'j) descriptor list" where
  "validate_list [] = Inr []"
| "validate_list (c # cs) =
     (case validate_descriptor c of
        Inl e \<Rightarrow> Inl e
      | Inr c' \<Rightarrow>
          (case validate_list cs of
             Inl e \<Rightarrow> Inl e
           | Inr cs' \<Rightarrow> Inr (c' # cs')))"

text \<open>
  \<open>Details(data=.., fields=.., class_name=..)\<close>: the fields are validated, then the
  \<open>mode='after'\<close> validator \<open>_fill_fields\<close> runs on the object.
\<close>

definition Details_init ::
  "DataModel \<Rightarrow> ('e, 'j) descriptor list option \<Rightarrow> 'c option \<Rightarrow> error + ('e, 'j, 'c) Details" where
  "Details_init dm fs cn =
     (case fs of
        None \<Rightarrow> fill_fields \<lparr>data = dm, details_fields = None, class_name = cn, details_type = ''Details''\<rparr>
      | Some cs \<Rightarrow>
          (case validate_list cs of
             Inl e \<Rightarrow> Inl e
           | Inr cs' \<Rightarrow>
               fill_fields \<lparr>data = dm, details_fields = Some cs', class_name = cn, details_type = ''Details''\<rparr>))"

subsection \<open>The JSON schema hook\<close>

text \<open>
  \<open>handler(core_schema)\<close> returns either a schema or a reference \<open>{'$ref': ..}\<close> into
  the definitions the handler keeps; \<open>handler.resolve_ref_schema\<close> returns the schema
  itself in the first case and the referenced definition in the second, and raises
  \<open>LookupError\<close> when the reference is unknown. A schema is a dictionary from keys to
  values; the value under \<open>'required'\<close> is a list of names.
\<close>

datatype schema_value = Names "string list" | Other string

type_synonym schema_def = "(string \<times> schema_value) list"

datatype json_schema = Ref string | Schema schema_def

type_synonym definitions = "(string \<times> schema_def) list"

definition resolve_ref_schema :: "definitions \<Rightarrow> json_schema \<Rightarrow> error + schema_def" where
  "resolve_ref_schema defs js =
     (case js of
        Schema sd \<Rightarrow> Inr sd
      | Ref r \<Rightarrow> (case dict_get defs r of None \<Rightarrow> Inl LookupError | Some sd \<Rightarrow> Inr sd))"

text \<open>
  \<open>schema_def['required'].append('fields')\<close>: \<open>KeyError\<close> without the key,
  \<open>AttributeError\<close> when the value under the key is no list; otherwise the list under
  the key is extended in place.
\<close>

definition append_required :: "schema_def \<Rightarrow> error + schema_def" where
  "append_required sd =
     (case dict_get sd ''required'' of
        None \<Rightarrow> Inl KeyError
      | Some (Names ns) \<Rightarrow> Inr (dict_setitem ''required'' (Names (ns @ [''fields''])) sd)
      | Some (Other s) \<Rightarrow> Inl AttributeError)"

text \<open>
  \<open>__get_pydantic_json_schema__\<close>, given what the handler returned and the handler's
  definitions; it returns \<open>json_schema\<close> and leaves the definitions updated.
\<close>

definition get_pydantic_json_schema ::
  "json_schema \<Rightarrow> definitions \<Rightarrow> error + (json_schema \<times> definitions)" where
  "get_pydantic_json_schema js defs =
     (case resolve_ref_schema defs js of
        Inl e \<Rightarrow> Inl e
      | Inr schema_def \<Rightarrow>
          (case append_required schema_def of
             Inl e \<Rightarrow> Inl e
           | Inr sd' \<Rightarrow>
               (case js of
                  Schema _ \<Rightarrow> Inr (Schema sd', defs)
                | Ref r \<Rightarrow> Inr (Ref r, dict_setitem r sd' defs))))"

subsection \<open>Vocabulary of the statements and concrete inputs\<close>

text \<open>The descriptor that the list comprehension builds for one item of the dictionary.\<close>

abbreviation lookup_for :: "string \<times> FieldInfo \<Rightarrow> ('e, 'j) descriptor" where
  "lookup_for \<equiv> \<lambda>(name, fi). Is_DisplayLookup
     \<lparr>mode = None, title = field_title fi, on_click = None,
      field = name, table_width_percent = None\<rparr>"

text \<open>
  A data model with three stored attributes (\<open>name\<close> titled \<open>'Name'\<close>, \<open>age\<close> without
  a title, \<open>note\<close> titled \<open>''\<close>) and one computed attribute (\<open>initials\<close> titled
  \<open>'Initials'\<close>).
\<close>

definition example_model :: DataModel where
  "example_model =
     \<lparr>model_fields =
        [(''name'', \<lparr>field_title = Some ''Name''\<rparr>),
         (''age'', \<lparr>field_title = None\<rparr>),
         (''note'', \<lparr>field_title = Some ''''\<rparr>)],
      model_computed_fields = [(''initials'', \<lparr>field_title = Some ''Initials''\<rparr>)]\<rparr>"

text \<open>\<open>DisplayLookup(field=f, title=t)\<close> and \<open>Display(value=v, title=t)\<close>.\<close>

definition lookup :: "string \<Rightarrow> string option \<Rightarrow> (string, string) descriptor" where
  "lookup f t = Is_DisplayLookup
     \<lparr>mode = None, title = t, on_click = None, field = f, table_width_percent = None\<rparr>"

definition literal :: "string \<Rightarrow> string option \<Rightarrow> (string, string) descriptor" where
  "literal v t = Is_Display
     \<lparr>mode = None, title = t, on_click = None, display_value = v, display_type = ''Display''\<rparr>"

text \<open>
  The definition of \<open>Details\<close> as the handler holds it before the hook runs: \<open>data\<close> has no
  default, so it is the one name under \<open>'required'\<close>.
\<close>

definition Details_schema :: schema_def where
  "Details_schema =
     [(''properties'', Other ''data, fields, className, type''),
      (''required'', Names [''data'']),
      (''title'', Other ''Details''),
      (''type'', Other ''object'')]"

section \<open>Properties\<close>

subsection \<open>Dictionaries\<close>

lemma dict_setitem_fresh:
  "k \<notin> set (map fst d) \<Longrightarrow> dict_setitem k v d = d @ [(k, v)]"
  by (induction d) auto

lemma foldl_setitem_distinct:
  "distinct (map fst (acc @ xs)) \<Longrightarrow>
   foldl (\<lambda>d (k, v). dict_setitem k v d) acc xs = acc @ xs"
proof (induction xs arbitrary: acc)
  case Nil
  then show ?case by simp
next
  case (Cons x xs)
  obtain k v where x: "x = (k, v)" by (cases x)
  from Cons.prems x have fresh: "k \<notin> set (map fst acc)" by auto
  from Cons.prems x have "distinct (map fst ((acc @ [(k, v)]) @ xs))" by simp
  from Cons.IH [OF this] show ?case
    using x fresh by (simp add: dict_setitem_fresh)
qed

lemma dict_get_setitem: "dict_get (dict_setitem k v d) k = Some v"
  by (induction d) (auto simp: dict_get_def)

text \<open>On a well-formed data model, \<open>{**model_fields, **model_computed_fields}\<close> is the
  stored items followed by the computed items.\<close>

lemma dict_unpack_wf:
  assumes "wf_DataModel dm"
  shows "dict_unpack (model_fields dm) (model_computed_fields dm) =
         model_fields dm @ model_computed_fields dm"
proof -
  from assms have a: "distinct (map fst (model_fields dm))"
    and b: "distinct (map fst (model_computed_fields dm))"
    and ab: "\<forall>k \<in> set (map fst (model_computed_fields dm)). k \<notin> set (map fst (model_fields dm))"
    by (simp_all add: wf_DataModel_def is_dict_def list_all_iff)
  from ab have "set (map fst (model_fields dm)) \<inter> set (map fst (model_computed_fields dm)) = {}"
    by blast
  with a b have "distinct (map fst ([] @ (model_fields dm @ model_computed_fields dm)))"
    by simp
  from foldl_setitem_distinct [OF this] show ?thesis
    by (simp add: dict_unpack_def)
qed

lemma wf_example_model: "wf_DataModel example_model"
  by (simp add: wf_DataModel_def is_dict_def example_model_def)

subsection \<open>Construction never changes a valid descriptor, and the comprehension never fails\<close>

lemma lookups_of_items_total: "lookups_of_items items = Inr (map lookup_for items)"
  by (induction items) (auto simp: DisplayLookup_init_def)

lemma validate_descriptor_same: "validate_descriptor c = Inr c' \<Longrightarrow> c' = c"
  by (cases c) (auto simp: DisplayLookup_init_def Display_init_def split: option.splits if_splits)

lemma validate_list_same: "validate_list cs = Inr cs' \<Longrightarrow> cs' = cs"
proof (induction cs arbitrary: cs')
  case Nil
  then show ?case by simp
next
  case (Cons c cs)
  then show ?case
    by (auto split: sum.splits dest: validate_descriptor_same)
qed

lemma Details_init_None:
  "wf_DataModel dm \<Longrightarrow>
   Details_init dm None cn =
     Inr \<lparr>data = dm,
          details_fields = Some (map lookup_for (model_fields dm @ model_computed_fields dm)),
          class_name = cn, details_type = ''Details''\<rparr>"
  by (simp add: Details_init_def fill_fields_def dict_unpack_wf lookups_of_items_total)

lemma Details_init_Some:
  "Details_init dm (Some cs) cn = Inr d \<Longrightarrow>
   d = \<lparr>data = dm, details_fields = Some (fill_loop dm cs), class_name = cn,
        details_type = ''Details''\<rparr>"
  by (auto simp: Details_init_def fill_fields_def split: sum.splits dest: validate_list_same)

subsection \<open>The loop, position by position\<close>

lemma length_fill_loop: "length (fill_loop dm cs) = length cs"
  by (induction cs) auto

lemma nth_fill_loop:
  "i < length cs \<Longrightarrow>
   fill_loop dm cs ! i = (if descriptor_title (cs ! i) = None then fill_title dm (cs ! i) else cs ! i)"
proof (induction cs arbitrary: i)
  case Nil
  then show ?case by simp
next
  case (Cons c cs)
  then show ?case by (cases i) auto
qed

lemma nth_fill_loop_unset:
  "i < length cs \<Longrightarrow> descriptor_title (cs ! i) = None \<Longrightarrow>
   fill_loop dm cs ! i = fill_title dm (cs ! i)"
  by (simp add: nth_fill_loop)

lemma nth_fill_loop_set:
  "i < length cs \<Longrightarrow> descriptor_title (cs ! i) \<noteq> None \<Longrightarrow> fill_loop dm cs ! i = cs ! i"
  by (auto simp: nth_fill_loop)

lemma fill_title_shape:
  "fill_title dm c = c \<or>
   (\<exists>l t. c = Is_DisplayLookup l \<and> fill_title dm c = Is_DisplayLookup (l\<lparr>title := Some t\<rparr>))"
proof (cases c)
  case (Is_DisplayLookup l)
  then show ?thesis
    by (cases "dict_get (model_fields dm) (field l)"; cases "field_title (the (dict_get (model_fields dm) (field l)))")
       auto
next
  case (Is_Display x)
  then show ?thesis by simp
qed

lemma fill_title_frame:
  "\<exists>t. fill_title dm (Is_DisplayLookup l) = Is_DisplayLookup (l\<lparr>title := t\<rparr>)"
proof (cases "dict_get (model_fields dm) (field l)")
  case None
  then have "fill_title dm (Is_DisplayLookup l) = Is_DisplayLookup (l\<lparr>title := title l\<rparr>)"
    by simp
  then show ?thesis ..
next
  case (Some pydantic_field)
  show ?thesis
  proof (cases "truthy (field_title pydantic_field)")
    case True
    with Some have "fill_title dm (Is_DisplayLookup l) =
        Is_DisplayLookup (l\<lparr>title := field_title pydantic_field\<rparr>)"
      by simp
    then show ?thesis ..
  next
    case False
    with Some have "fill_title dm (Is_DisplayLookup l) = Is_DisplayLookup (l\<lparr>title := title l\<rparr>)"
      by simp
    then show ?thesis ..
  qed
qed

lemma fill_loop_lookup:
  assumes "i < length cs" "cs ! i = Is_DisplayLookup l"
  shows "\<exists>t. fill_loop dm cs ! i = Is_DisplayLookup (l\<lparr>title := t\<rparr>) \<and>
             (title l \<noteq> None \<longrightarrow> t = title l)"
proof (cases "title l = None")
  case True
  with assms have "fill_loop dm cs ! i = fill_title dm (Is_DisplayLookup l)"
    using nth_fill_loop_unset [of i cs dm] by simp
  with fill_title_frame [of dm l] True show ?thesis by (auto simp del: fill_title.simps)
next
  case False
  with assms have "fill_loop dm cs ! i = Is_DisplayLookup (l\<lparr>title := title l\<rparr>)"
    using nth_fill_loop_set [of i cs dm] by simp
  then show ?thesis by blast
qed

lemma fill_loop_display:
  assumes "i < length cs" "cs ! i = Is_Display x"
  shows "fill_loop dm cs ! i = Is_Display x"
  using assms by (simp add: nth_fill_loop)

lemma validate_list_ok:
  "list_all (\<lambda>c. validate_descriptor c = Inr c) cs \<Longrightarrow> validate_list cs = Inr cs"
  by (induction cs) auto

lemma fill_title_unmatched:
  "field l \<notin> set (map fst (model_fields dm)) \<Longrightarrow>
   fill_title dm (Is_DisplayLookup l) = Is_DisplayLookup l"
proof -
  assume "field l \<notin> set (map fst (model_fields dm))"
  then have "dict_get (model_fields dm) (field l) = None"
    by (simp add: dict_get_def map_of_eq_None_iff)
  then show ?thesis by simp
qed

lemma fill_loop_fixed:
  "list_all (\<lambda>c. descriptor_title c = None \<longrightarrow> fill_title dm c = c) cs \<Longrightarrow> fill_loop dm cs = cs"
  by (induction cs) auto

lemma fill_title_again:
  "descriptor_title (fill_title dm c) = None \<Longrightarrow> fill_title dm (fill_title dm c) = fill_title dm c"
  by (cases c) (auto split: option.splits if_splits)

lemma fill_loop_again: "fill_loop dm (fill_loop dm cs) = fill_loop dm cs"
  by (induction cs) (auto simp: fill_title_again)

lemma fill_title_lookup_for:
  assumes wf: "wf_DataModel dm"
    and mem: "(name, fi) \<in> set (model_fields dm @ model_computed_fields dm)"
    and unset: "field_title fi = None"
  shows "fill_title dm (lookup_for (name, fi) :: ('e, 'j) descriptor) = lookup_for (name, fi)"
proof (cases "dict_get (model_fields dm) name")
  case None
  then show ?thesis by simp
next
  case (Some pydantic_field)
  then have stored: "(name, pydantic_field) \<in> set (model_fields dm)"
    by (simp add: dict_get_def map_of_SomeD)
  from wf have dist: "distinct (map fst (model_fields dm))"
    and disj: "\<forall>k \<in> set (map fst (model_computed_fields dm)). k \<notin> set (map fst (model_fields dm))"
    by (simp_all add: wf_DataModel_def is_dict_def list_all_iff)
  from stored have "name \<in> set (map fst (model_fields dm))" by force
  with disj have "name \<notin> set (map fst (model_computed_fields dm))" by blast
  then have "(name, fi) \<notin> set (model_computed_fields dm)" by force
  with mem have "(name, fi) \<in> set (model_fields dm)" by simp
  with dist have "map_of (model_fields dm) name = Some fi" by simp
  with Some have "pydantic_field = fi" by (simp add: dict_get_def)
  with Some unset show ?thesis by simp
qed

lemma fill_loop_lookup_for:
  assumes "wf_DataModel dm"
  shows "fill_loop dm (map lookup_for (model_fields dm @ model_computed_fields dm)) =
         (map lookup_for (model_fields dm @ model_computed_fields dm) :: ('e, 'j) descriptor list)"
proof (rule fill_loop_fixed)
  show "list_all (\<lambda>c. descriptor_title c = None \<longrightarrow> fill_title dm c = c)
          (map lookup_for (model_fields dm @ model_computed_fields dm) :: ('e, 'j) descriptor list)"
    unfolding list_all_iff
  proof
    fix c :: "('e, 'j) descriptor"
    assume "c \<in> set (map lookup_for (model_fields dm @ model_computed_fields dm))"
    then obtain name fi where mem: "(name, fi) \<in> set (model_fields dm @ model_computed_fields dm)"
      and c: "c = lookup_for (name, fi)"
      by auto
    show "descriptor_title c = None \<longrightarrow> fill_title dm c = c"
    proof
      assume "descriptor_title c = None"
      with c have "field_title fi = None" by simp
      from fill_title_lookup_for [OF assms mem this] c show "fill_title dm c = c"
        by (simp only:)
    qed
  qed
qed

subsection \<open>Inference of the fields\<close>

text \<open>
  Claim C1. A \<open>Details\<close> constructed without \<open>fields\<close> on a well-formed data model
  gets one \<open>DisplayLookup\<close> per declared attribute: the stored attributes in their
  declared order, then the computed attributes in theirs; the descriptor's \<open>field\<close>
  is the attribute's name and its \<open>title\<close> is the attribute's declared title, or
  \<open>None\<close> when the attribute declares none. Construction succeeds.
\<close>

theorem infer_fields:
  assumes "wf_DataModel dm"
  shows "Details_init dm None cn =
     Inr \<lparr>data = dm,
          details_fields = Some (map
            (\<lambda>(name, fi). Is_DisplayLookup
               \<lparr>mode = None, title = field_title fi, on_click = None,
                field = name, table_width_percent = None\<rparr>)
            (model_fields dm @ model_computed_fields dm)),
          class_name = cn, details_type = ''Details''\<rparr>"
  using assms by (rule Details_init_None)

theorem infer_fields_witness:
  "wf_DataModel example_model \<and>
   Details_init example_model None (None :: string option) =
     Inr \<lparr>data = example_model,
          details_fields = Some
            [lookup ''name'' (Some ''Name''), lookup ''age'' None, lookup ''note'' (Some ''''),
             lookup ''initials'' (Some ''Initials'')],
          class_name = None, details_type = ''Details''\<rparr>"
  unfolding infer_fields [OF wf_example_model]
  by (simp add: wf_DataModel_def is_dict_def lookup_def example_model_def)

subsection \<open>Titles filled from the data model\<close>

text \<open>
  Claim C2, as amended. In a \<open>Details\<close> constructed with an explicit list, a
  \<open>DisplayLookup\<close> whose title is unset and whose \<open>field\<close> is the name of a stored
  attribute with a declared, non-empty title \<open>T\<close> gets the title \<open>T\<close>; a descriptor
  whose title is set is left as it is.
\<close>

theorem title_fill_stored:
  assumes "Details_init dm (Some cs) cn = Inr d" and "i < length cs"
  shows "\<exists>cs'. details_fields d = Some cs' \<and>
     (descriptor_title (cs ! i) \<noteq> None \<longrightarrow> cs' ! i = cs ! i) \<and>
     (\<forall>l fi T. cs ! i = Is_DisplayLookup l \<and> title l = None \<and>
         dict_get (model_fields dm) (field l) = Some fi \<and>
         field_title fi = Some T \<and> T \<noteq> [] \<longrightarrow>
         cs' ! i = Is_DisplayLookup (l\<lparr>title := Some T\<rparr>))"
proof -
  from Details_init_Some [OF assms(1)]
  have "details_fields d = Some (fill_loop dm cs)" by simp
  moreover have "descriptor_title (cs ! i) \<noteq> None \<longrightarrow> fill_loop dm cs ! i = cs ! i"
    using assms(2) by (simp add: nth_fill_loop)
  moreover have "\<forall>l fi T. cs ! i = Is_DisplayLookup l \<and> title l = None \<and>
         dict_get (model_fields dm) (field l) = Some fi \<and>
         field_title fi = Some T \<and> T \<noteq> [] \<longrightarrow>
         fill_loop dm cs ! i = Is_DisplayLookup (l\<lparr>title := Some T\<rparr>)"
    using assms(2) by (simp add: nth_fill_loop)
  ultimately show ?thesis by blast
qed

theorem title_fill_stored_witness:
  "Details_init example_model (Some [lookup ''name'' None, lookup ''age'' (Some ''Years'')])
       (None :: string option)
     = Inr \<lparr>data = example_model,
            details_fields = Some [lookup ''name'' (Some ''Name''), lookup ''age'' (Some ''Years'')],
            class_name = None, details_type = ''Details''\<rparr> \<and>
   the (details_fields
          \<lparr>data = example_model,
           details_fields = Some [lookup ''name'' (Some ''Name''), lookup ''age'' (Some ''Years'')],
           class_name = (None :: string option), details_type = ''Details''\<rparr>) ! 0
     = lookup ''name'' (Some ''Name'')"
proof -
  let ?cs = "[lookup ''name'' None, lookup ''age'' (Some ''Years'')]"
  let ?d = "\<lparr>data = example_model,
            details_fields = Some [lookup ''name'' (Some ''Name''), lookup ''age'' (Some ''Years'')],
            class_name = (None :: string option), details_type = ''Details''\<rparr>"
  have run: "Details_init example_model (Some ?cs) None = Inr ?d"
    by (simp add: Details_init_def fill_fields_def lookup_def example_model_def
        DisplayLookup_init_def dict_get_def)
  have pos: "0 < length ?cs" by simp
  from title_fill_stored [OF run pos]
  have "the (details_fields ?d) ! 0 = lookup ''name'' (Some ''Name'')"
    by (simp add: lookup_def example_model_def dict_get_def)
  with run show ?thesis by simp
qed

text \<open>
  The claim as first stated also promises the title of a computed attribute and an
  empty declared title. With \<open>note\<close> stored under the title \<open>''\<close> and \<open>initials\<close>
  computed under the title \<open>'Initials'\<close>, both lookups keep their title unset.
\<close>

theorem title_fill_counterexample:
  "dict_get (model_fields example_model) ''note'' = Some \<lparr>field_title = Some ''''\<rparr> \<and>
   dict_get (model_computed_fields example_model) ''initials'' = Some \<lparr>field_title = Some ''Initials''\<rparr> \<and>
   Details_init example_model (Some [lookup ''note'' None, lookup ''initials'' None])
       (None :: string option)
     = Inr \<lparr>data = example_model,
            details_fields = Some [lookup ''note'' None, lookup ''initials'' None],
            class_name = None, details_type = ''Details''\<rparr>"
  by (simp add: Details_init_def fill_fields_def lookup_def example_model_def
        DisplayLookup_init_def dict_get_def)

subsection \<open>The fields are populated\<close>

text \<open>
  Claim C3. After a successful construction the attribute \<open>fields\<close> is not \<open>None\<close>,
  whether the caller gave a list or not.
\<close>

theorem fields_populated:
  assumes "Details_init dm fs cn = Inr d"
  shows "details_fields d \<noteq> None"
  using assms
  by (auto simp: Details_init_def fill_fields_def lookups_of_items_total
      split: option.splits sum.splits)

theorem fields_populated_witness:
  "Details_init example_model None (None :: string option) =
     Inr \<lparr>data = example_model,
          details_fields = Some
            [lookup ''name'' (Some ''Name''), lookup ''age'' None, lookup ''note'' (Some ''''),
             lookup ''initials'' (Some ''Initials'')],
          class_name = None, details_type = ''Details''\<rparr> \<and>
   details_fields
     \<lparr>data = example_model,
          details_fields = Some
            [lookup ''name'' (Some ''Name''), lookup ''age'' None, lookup ''note'' (Some ''''),
             lookup ''initials'' (Some ''Initials'')],
          class_name = (None :: string option), details_type = ''Details''\<rparr> \<noteq> None"
proof -
  have run: "Details_init example_model None (None :: string option) =
     Inr \<lparr>data = example_model,
          details_fields = Some
            [lookup ''name'' (Some ''Name''), lookup ''age'' None, lookup ''note'' (Some ''''),
             lookup ''initials'' (Some ''Initials'')],
          class_name = None, details_type = ''Details''\<rparr>"
    by (simp add: Details_init_None [OF wf_example_model])
       (simp add: lookup_def example_model_def)
  from fields_populated [OF run] run show ?thesis by simp
qed

subsection \<open>Length and order of an explicit list\<close>

text \<open>
  Claim C4. With an explicit list, the resolved list has the length of the input and
  holds at every position the descriptor the input holds there: the same value, or
  the same \<open>DisplayLookup\<close> with its unset title filled.
\<close>

theorem order_preserved:
  assumes "Details_init dm (Some cs) cn = Inr d"
  shows "\<exists>cs'. details_fields d = Some cs' \<and> length cs' = length cs \<and>
     (\<forall>i<length cs. cs' ! i = cs ! i \<or>
        (\<exists>l t. cs ! i = Is_DisplayLookup l \<and> title l = None \<and>
               cs' ! i = Is_DisplayLookup (l\<lparr>title := Some t\<rparr>)))"
proof -
  from Details_init_Some [OF assms]
  have fs: "details_fields d = Some (fill_loop dm cs)" by simp
  have "fill_loop dm cs ! i = cs ! i \<or>
        (\<exists>l t. cs ! i = Is_DisplayLookup l \<and> title l = None \<and>
               fill_loop dm cs ! i = Is_DisplayLookup (l\<lparr>title := Some t\<rparr>))"
    if "i < length cs" for i
  proof (cases "descriptor_title (cs ! i) = None")
    case True
    with that have "fill_loop dm cs ! i = fill_title dm (cs ! i)"
      by (simp add: nth_fill_loop_unset)
    with fill_title_shape [of dm "cs ! i"] True show ?thesis by auto
  next
    case False
    with that have "fill_loop dm cs ! i = cs ! i" by (simp add: nth_fill_loop_set)
    then show ?thesis by simp
  qed
  with fs show ?thesis by (simp add: length_fill_loop)
qed

theorem order_preserved_witness:
  "Details_init example_model
       (Some [lookup ''age'' None, literal ''x'' None, lookup ''name'' None])
       (None :: string option)
     = Inr \<lparr>data = example_model,
            details_fields =
              Some [lookup ''age'' None, literal ''x'' None, lookup ''name'' (Some ''Name'')],
            class_name = None, details_type = ''Details''\<rparr> \<and>
   length (the (details_fields
      \<lparr>data = example_model,
       details_fields =
         Some [lookup ''age'' None, literal ''x'' None, lookup ''name'' (Some ''Name'')],
       class_name = (None :: string option), details_type = ''Details''\<rparr>)) = 3"
proof -
  let ?cs = "[lookup ''age'' None, literal ''x'' None, lookup ''name'' None]"
  let ?d = "\<lparr>data = example_model,
            details_fields =
              Some [lookup ''age'' None, literal ''x'' None, lookup ''name'' (Some ''Name'')],
            class_name = (None :: string option), details_type = ''Details''\<rparr>"
  have run: "Details_init example_model (Some ?cs) None = Inr ?d"
    by (simp add: Details_init_def fill_fields_def lookup_def literal_def example_model_def
        DisplayLookup_init_def Display_init_def dict_get_def)
  from order_preserved [OF run]
  have "length (the (details_fields ?d)) = length ?cs" by auto
  with run show ?thesis by simp
qed

subsection \<open>A lookup that matches no attribute\<close>

text \<open>
  Claim C5. When every descriptor of the explicit list is valid, construction
  succeeds, and a \<open>DisplayLookup\<close> whose \<open>field\<close> is the name of no declared attribute,
  stored or computed, is in the result as it was given: an unset title stays unset.
\<close>

theorem unmatched_passes_through:
  assumes "list_all (\<lambda>c. validate_descriptor c = Inr c) cs"
    and "i < length cs"
    and "cs ! i = Is_DisplayLookup l"
    and "field l \<notin> set (map fst (model_fields dm @ model_computed_fields dm))"
  shows "\<exists>d cs'. Details_init dm (Some cs) cn = Inr d \<and> details_fields d = Some cs' \<and>
           cs' ! i = Is_DisplayLookup l \<and>
           (title l = None \<longrightarrow> descriptor_title (cs' ! i) = None)"
proof -
  from assms(1) have "validate_list cs = Inr cs" by (rule validate_list_ok)
  then have run: "Details_init dm (Some cs) cn =
      Inr \<lparr>data = dm, details_fields = Some (fill_loop dm cs), class_name = cn,
           details_type = ''Details''\<rparr>"
    by (simp add: Details_init_def fill_fields_def)
  from assms(4) have "field l \<notin> set (map fst (model_fields dm))" by simp
  then have same: "fill_title dm (cs ! i) = cs ! i"
    unfolding assms(3) by (rule fill_title_unmatched)
  have "fill_loop dm cs ! i = cs ! i"
  proof (cases "descriptor_title (cs ! i) = None")
    case True
    from nth_fill_loop_unset [OF assms(2) True] same show ?thesis by (simp only:)
  next
    case False
    from assms(2) False show ?thesis by (rule nth_fill_loop_set)
  qed
  with assms(3) have "fill_loop dm cs ! i = Is_DisplayLookup l" by simp
  with run show ?thesis by simp
qed

theorem unmatched_passes_through_witness:
  "list_all (\<lambda>c. validate_descriptor c = Inr c) [lookup ''name'' None, lookup ''shoe_size'' None] \<and>
   Details_init example_model (Some [lookup ''name'' None, lookup ''shoe_size'' None])
       (None :: string option)
     = Inr \<lparr>data = example_model,
            details_fields = Some [lookup ''name'' (Some ''Name''), lookup ''shoe_size'' None],
            class_name = None, details_type = ''Details''\<rparr>"
proof -
  let ?cs = "[lookup ''name'' None, lookup ''shoe_size'' None]"
  let ?l = "\<lparr>mode = None, title = None, on_click = (None :: string option),
             field = ''shoe_size'', table_width_percent = None\<rparr>"
  have v: "list_all (\<lambda>c. validate_descriptor c = Inr c) ?cs"
    by (simp add: lookup_def DisplayLookup_init_def)
  have i: "1 < length ?cs" by simp
  have c: "?cs ! 1 = Is_DisplayLookup ?l" by (simp add: lookup_def)
  have u: "field ?l \<notin> set (map fst (model_fields example_model @ model_computed_fields example_model))"
    by (simp add: example_model_def)
  from unmatched_passes_through [OF v i c u, of "None :: string option"]
  obtain d cs' where "Details_init example_model (Some ?cs) (None :: string option) = Inr d"
    and "details_fields d = Some cs'" and "cs' ! 1 = Is_DisplayLookup ?l"
    by blast
  moreover have "Details_init example_model (Some ?cs) (None :: string option) =
       Inr \<lparr>data = example_model,
            details_fields = Some [lookup ''name'' (Some ''Name''), lookup ''shoe_size'' None],
            class_name = None, details_type = ''Details''\<rparr>"
    by (simp add: Details_init_def fill_fields_def lookup_def example_model_def
        DisplayLookup_init_def dict_get_def)
  ultimately show ?thesis using v by simp
qed

subsection \<open>The bound on the width\<close>

text \<open>
  Claim C6. \<open>DisplayLookup\<close> refuses the widths \<open>-1\<close> and \<open>101\<close> and accepts \<open>0\<close> and
  \<open>100\<close>; in general a width below 0 or above 100 is a validation error, and an
  accepted width is stored as given.
\<close>

theorem width_bound:
  "DisplayLookup_init m t oc f (Some (- 1)) = Inl ValidationError \<and>
   DisplayLookup_init m t oc f (Some 101) = Inl ValidationError \<and>
   DisplayLookup_init m t oc f (Some 0) =
     Inr \<lparr>mode = m, title = t, on_click = oc, field = f, table_width_percent = Some 0\<rparr> \<and>
   DisplayLookup_init m t oc f (Some 100) =
     Inr \<lparr>mode = m, title = t, on_click = oc, field = f, table_width_percent = Some 100\<rparr> \<and>
   DisplayLookup_init m t oc f (Some n) =
     (if n < 0 \<or> 100 < n then Inl ValidationError
      else Inr \<lparr>mode = m, title = t, on_click = oc, field = f, table_width_percent = Some n\<rparr>)"
  by (auto simp: DisplayLookup_init_def Interval_def)

subsection \<open>The field name is not constrained\<close>

text \<open>
  Claim C7, as amended. \<open>DisplayLookup\<close> accepts every string as \<open>field\<close>, the empty
  string too: with a width that is unset or within 0 and 100, construction succeeds
  and stores the string given.
\<close>

theorem field_unconstrained:
  assumes "w = None \<or> (\<exists>n. w = Some n \<and> 0 \<le> n \<and> n \<le> 100)"
  shows "DisplayLookup_init m t oc f w =
     Inr \<lparr>mode = m, title = t, on_click = oc, field = f, table_width_percent = w\<rparr>"
  using assms by (auto simp: DisplayLookup_init_def Interval_def)

theorem field_unconstrained_witness:
  "DisplayLookup_init (Some markdown) None (None :: string option) '''' (Some 50) =
     Inr \<lparr>mode = Some markdown, title = None, on_click = None, field = '''',
          table_width_percent = Some 50\<rparr>"
  by (rule field_unconstrained) simp

text \<open>The claim as first stated wants a validation error for the empty string.\<close>

theorem empty_field_accepted:
  "DisplayLookup_init None None (None :: string option) '''' None =
     Inr \<lparr>mode = None, title = None, on_click = None, field = '''', table_width_percent = None\<rparr>"
  by (simp add: DisplayLookup_init_def)

subsection \<open>What resolution leaves alone\<close>

text \<open>
  Claim C8. With an explicit list, resolution changes at most the title of a
  \<open>DisplayLookup\<close>, and only a title that was unset: \<open>mode\<close>, \<open>on_click\<close>, \<open>field\<close> and
  \<open>table_width_percent\<close> are as before, and a \<open>Display\<close> is unchanged altogether, so
  its value is kept and its unset title stays unset.
\<close>

theorem only_unset_titles_change:
  assumes "Details_init dm (Some cs) cn = Inr d"
  shows "\<exists>cs'. details_fields d = Some cs' \<and> length cs' = length cs \<and>
     (\<forall>i<length cs.
        (\<forall>l. cs ! i = Is_DisplayLookup l \<longrightarrow>
           (\<exists>t. cs' ! i = Is_DisplayLookup (l\<lparr>title := t\<rparr>) \<and>
                (title l \<noteq> None \<longrightarrow> t = title l))) \<and>
        (\<forall>x. cs ! i = Is_Display x \<longrightarrow> cs' ! i = Is_Display x))"
proof -
  from Details_init_Some [OF assms]
  have "details_fields d = Some (fill_loop dm cs)" by simp
  then show ?thesis
    using fill_loop_lookup [of _ cs _ dm] fill_loop_display [of _ cs _ dm]
    by (simp add: length_fill_loop)
qed

theorem only_unset_titles_change_witness:
  "Details_init example_model
       (Some [literal ''42'' None, lookup ''name'' (Some ''Who''), lookup ''name'' None])
       (None :: string option)
     = Inr \<lparr>data = example_model,
            details_fields =
              Some [literal ''42'' None, lookup ''name'' (Some ''Who''), lookup ''name'' (Some ''Name'')],
            class_name = None, details_type = ''Details''\<rparr> \<and>
   length (the (details_fields
      \<lparr>data = example_model,
       details_fields =
         Some [literal ''42'' None, lookup ''name'' (Some ''Who''), lookup ''name'' (Some ''Name'')],
       class_name = (None :: string option), details_type = ''Details''\<rparr>)) = 3"
proof -
  let ?cs = "[literal ''42'' None, lookup ''name'' (Some ''Who''), lookup ''name'' None]"
  let ?d = "\<lparr>data = example_model,
            details_fields =
              Some [literal ''42'' None, lookup ''name'' (Some ''Who''), lookup ''name'' (Some ''Name'')],
            class_name = (None :: string option), details_type = ''Details''\<rparr>"
  have run: "Details_init example_model (Some ?cs) None = Inr ?d"
    by (simp add: Details_init_def fill_fields_def lookup_def literal_def example_model_def
        DisplayLookup_init_def Display_init_def dict_get_def)
  from only_unset_titles_change [OF run]
  have "length (the (details_fields ?d)) = length ?cs" by auto
  with run show ?thesis by simp
qed

subsection \<open>The JSON schema\<close>

text \<open>
  Claim C9. When the handler's schema for \<open>Details\<close> resolves to a definition that has
  a \<open>'required'\<close> list, the hook succeeds and the definition of the schema it returns
  lists \<open>'fields'\<close>, appended to the names that were required before.
\<close>

theorem required_lists_fields:
  assumes "resolve_ref_schema defs js = Inr sd"
    and "dict_get sd ''required'' = Some (Names ns)"
  shows "\<exists>js' defs' sd'. get_pydantic_json_schema js defs = Inr (js', defs') \<and>
           resolve_ref_schema defs' js' = Inr sd' \<and>
           dict_get sd' ''required'' = Some (Names (ns @ [''fields'']))"
proof -
  from assms(2) have app: "append_required sd =
      Inr (dict_setitem ''required'' (Names (ns @ [''fields''])) sd)"
    by (simp add: append_required_def)
  let ?sd' = "dict_setitem ''required'' (Names (ns @ [''fields''])) sd"
  have req: "dict_get ?sd' ''required'' = Some (Names (ns @ [''fields'']))"
    by (rule dict_get_setitem)
  show ?thesis
  proof (cases js)
    case (Ref r)
    with assms(1) app have "get_pydantic_json_schema js defs = Inr (js, dict_setitem r ?sd' defs)"
      by (simp add: get_pydantic_json_schema_def)
    moreover from Ref have "resolve_ref_schema (dict_setitem r ?sd' defs) js = Inr ?sd'"
      by (simp add: resolve_ref_schema_def dict_get_setitem)
    ultimately show ?thesis using req by blast
  next
    case (Schema s)
    with assms(1) app have "get_pydantic_json_schema js defs = Inr (Schema ?sd', defs)"
      by (simp add: get_pydantic_json_schema_def)
    moreover have "resolve_ref_schema defs (Schema ?sd') = Inr ?sd'"
      by (simp add: resolve_ref_schema_def)
    ultimately show ?thesis using req by blast
  qed
qed

theorem required_lists_fields_witness:
  "resolve_ref_schema [(''Details'', Details_schema)] (Ref ''Details'') = Inr Details_schema \<and>
   dict_get Details_schema ''required'' = Some (Names [''data'']) \<and>
   get_pydantic_json_schema (Ref ''Details'') [(''Details'', Details_schema)] =
     Inr (Ref ''Details'',
          [(''Details'',
            [(''properties'', Other ''data, fields, className, type''),
             (''required'', Names [''data'', ''fields'']),
             (''title'', Other ''Details''),
             (''type'', Other ''object'')])])"
proof -
  have r: "resolve_ref_schema [(''Details'', Details_schema)] (Ref ''Details'') = Inr Details_schema"
    by (simp add: resolve_ref_schema_def dict_get_def)
  have q: "dict_get Details_schema ''required'' = Some (Names [''data''])"
    by (simp add: Details_schema_def dict_get_def)
  note listed = required_lists_fields [OF r q]
  have run: "get_pydantic_json_schema (Ref ''Details'') [(''Details'', Details_schema)] =
     Inr (Ref ''Details'',
          [(''Details'',
            [(''properties'', Other ''data, fields, className, type''),
             (''required'', Names [''data'', ''fields'']),
             (''title'', Other ''Details''),
             (''type'', Other ''object'')])])"
    by (simp add: get_pydantic_json_schema_def resolve_ref_schema_def append_required_def
        Details_schema_def dict_get_def)
  from listed r q run show ?thesis by blast
qed

subsection \<open>Resolution is idempotent\<close>

text \<open>
  Claim C10. Running \<open>_fill_fields\<close> again on a \<open>Details\<close> that was constructed on a
  well-formed data model succeeds and returns the object unchanged.
\<close>

theorem resolution_idempotent:
  assumes "wf_DataModel dm" and "Details_init dm fs cn = Inr d"
  shows "fill_fields d = Inr d"
proof (cases fs)
  case None
  with assms(2) have "Details_init dm None cn = Inr d" by simp
  then have d: "d = \<lparr>data = dm,
          details_fields = Some (map lookup_for (model_fields dm @ model_computed_fields dm)),
          class_name = cn, details_type = ''Details''\<rparr>"
    by (simp add: Details_init_None [OF assms(1)])
  show ?thesis
    unfolding d by (simp add: fill_fields_def fill_loop_lookup_for [OF assms(1)] del: map_append)
next
  case (Some cs)
  with assms(2) have d: "d = \<lparr>data = dm, details_fields = Some (fill_loop dm cs), class_name = cn,
        details_type = ''Details''\<rparr>"
    by (simp add: Details_init_Some)
  show ?thesis
    unfolding d by (simp add: fill_fields_def fill_loop_again)
qed

theorem resolution_idempotent_witness:
  "wf_DataModel example_model \<and>
   Details_init example_model (Some [lookup ''name'' None, literal ''7'' None])
       (None :: string option)
     = Inr \<lparr>data = example_model,
            details_fields = Some [lookup ''name'' (Some ''Name''), literal ''7'' None],
            class_name = None, details_type = ''Details''\<rparr> \<and>
   fill_fields \<lparr>data = example_model,
            details_fields = Some [lookup ''name'' (Some ''Name''), literal ''7'' None],
            class_name = (None :: string option), details_type = ''Details''\<rparr>
     = Inr \<lparr>data = example_model,
            details_fields = Some [lookup ''name'' (Some ''Name''), literal ''7'' None],
            class_name = None, details_type = ''Details''\<rparr>"
proof -
  let ?cs = "[lookup ''name'' None, literal ''7'' None]"
  let ?d = "\<lparr>data = example_model,
            details_fields = Some [lookup ''name'' (Some ''Name''), literal ''7'' None],
            class_name = (None :: string option), details_type = ''Details''\<rparr>"
  have run: "Details_init example_model (Some ?cs) None = Inr ?d"
    by (simp add: Details_init_def fill_fields_def lookup_def literal_def example_model_def
        DisplayLookup_init_def Display_init_def dict_get_def)
  from resolution_idempotent [OF wf_example_model run] run wf_example_model
  show ?thesis by simp
qed

end
